theory Spec2Isabelle
  imports Complex_Main "HOL-Library.Multiset"
begin

section \<open>Python values and dictionaries\<close>

text \<open>
  The script \<^verbatim>\<open>classifiers/xgb/xgb_train.py\<close> handles three kinds of scalar:
  strings, floats and integers. A float is modelled by the real number it denotes
  (every sampled or literal float of the script is finite), so \<^verbatim>\<open>type(v) == float\<close>
  is the test for the constructor \<open>VFloat\<close>.
\<close>

datatype pyval = VStr string | VFloat real | VInt int

datatype py_error =
    KeyError string
  | IndexError
  | TypeError
  | ValueError
  | AttributeError
  | LibraryError

text \<open>
  A Python \<^verbatim>\<open>dict\<close> keeps its keys in insertion order and holds each key once: an
  association list that is only ever built with \<open>dict_set\<close>.
\<close>

type_synonym 'v pydict = "(string \<times> 'v) list"

fun dict_set :: "string \<Rightarrow> 'v \<Rightarrow> 'v pydict \<Rightarrow> 'v pydict" where
  "dict_set k v [] = [(k, v)]"
| "dict_set k v ((k', v') # ps) =
     (if k' = k then (k, v) # ps else (k', v') # dict_set k v ps)"

definition dict_literal :: "(string \<times> 'v) list \<Rightarrow> 'v pydict" where
  "dict_literal kvs = fold (\<lambda>(k, v). dict_set k v) kvs []"

definition dict_merge :: "'v pydict \<Rightarrow> 'v pydict \<Rightarrow> 'v pydict" where
  \<comment> \<open>\<^verbatim>\<open>{**a, **b}\<close>\<close>
  "dict_merge a b = fold (\<lambda>(k, v). dict_set k v) b a"

definition dict_get :: "'v pydict \<Rightarrow> string \<Rightarrow> py_error + 'v" where
  \<comment> \<open>\<^verbatim>\<open>d[k]\<close>\<close>
  "dict_get d k = (case map_of d k of None \<Rightarrow> Inl (KeyError k) | Some v \<Rightarrow> Inr v)"

definition keys :: "'v pydict \<Rightarrow> string list" where
  "keys d = map fst d"

section \<open>The hyperparameter space\<close>

text \<open>
  The nodes of a \<^verbatim>\<open>hyperopt\<close> search space the script uses. \<^verbatim>\<open>hp.uniform\<close> and
  \<^verbatim>\<open>hp.quniform\<close> yield Python floats; \<^verbatim>\<open>hp.quniform(label, low, high, q)\<close> is
  \<^verbatim>\<open>round(uniform(low, high) / q) * q\<close> with numpy's rounding (halves to the even
  neighbour); \<^verbatim>\<open>hp.choice(label, options)\<close> is \<^verbatim>\<open>options[randint(len(options))]\<close>.
\<close>

datatype hp_node =
    Lit pyval
  | Uniform string real real
  | QUniform string real real real
  | Choice string "pyval list"

definition xgb_hyp :: "hp_node pydict \<times> hp_node pydict" where
  "xgb_hyp =
     (let gbtree_hyp = dict_literal
            [(''booster'', Lit (VStr ''gbtree'')),
             (''eta'', Uniform ''lr'' (1/100) (17/100)),
             (''gamma'', Uniform ''mlr'' (5/100) (25/10)),
             (''min_child_weight'', Uniform ''mcw'' 0 2),
             (''max_depth'', QUniform ''md'' 3 9 1),
             (''subsample'', Uniform ''ss'' (7/10) 1),
             (''colsample_bytree'', Uniform ''cs'' (7/10) 1),
             (''objective'', Lit (VStr ''binary:logistic'')),
             (''silent'', Lit (VInt 1))];
          dart_hyp = dict_literal
            [(''booster'', Lit (VStr ''dart'')),
             (''sample_type'', Choice ''dart_st'' [VStr ''uniform'', VStr ''weighted'']),
             (''normalize_type'', Choice ''dart_nt'' [VStr ''tree'', VStr ''forest'']),
             (''rate_drop'', Uniform ''dropout'' 0 (3/10)),
             (''skip_drop'', Uniform ''skip'' 0 (25/100))]
      in (gbtree_hyp, dart_hyp))"

definition hp_default_config :: "bool \<Rightarrow> pyval pydict" where
  "hp_default_config deep =
     (if deep then
        dict_literal
          [(''eta'', VFloat (1/10)), (''seed'', VInt 0), (''subsample'', VFloat (75/100)),
           (''colsample_bytree'', VFloat (85/100)), (''gamma'', VFloat (25/10)),
           (''objective'', VStr ''binary:logistic''), (''max_depth'', VInt 8),
           (''min_child_weight'', VFloat (4/10)), (''silent'', VInt 1)]
      else
        dict_literal
          [(''eta'', VFloat (1/10)), (''seed'', VInt 0), (''subsample'', VFloat (8/10)),
           (''colsample_bytree'', VFloat (9/10)), (''gamma'', VFloat (16/10)),
           (''objective'', VStr ''binary:logistic''), (''max_depth'', VInt 6),
           (''min_child_weight'', VInt 1), (''silent'', VInt 1)])"

section \<open>Drawing one sample\<close>

text \<open>
  The random draws of one call of \<^verbatim>\<open>hyperopt.pyll.stochastic.sample\<close>, by the label
  of the node that consumes them: the underlying uniform variate of a
  \<^verbatim>\<open>uniform\<close>/\<^verbatim>\<open>quniform\<close> node and the index of a \<^verbatim>\<open>choice\<close> node.
\<close>

record draws =
  unif :: "string \<Rightarrow> real"
  randint :: "string \<Rightarrow> nat"

definition round_half_even :: "real \<Rightarrow> int" where
  \<comment> \<open>\<^verbatim>\<open>np.round\<close> and Python 3's \<^verbatim>\<open>round\<close>: to the nearest integer, a half to the even one\<close>
  "round_half_even x =
     (let f = \<lfloor>x\<rfloor>; r = x - of_int f
      in if r < 1/2 then f else if 1/2 < r then f + 1 else if even f then f else f + 1)"

fun sample_node :: "draws \<Rightarrow> hp_node \<Rightarrow> pyval option" where
  "sample_node d (Lit v) = Some v"
| "sample_node d (Uniform l lo hi) = Some (VFloat (unif d l))"
| "sample_node d (QUniform l lo hi q) = Some (VFloat (of_int (round_half_even (unif d l / q)) * q))"
| "sample_node d (Choice l opts) =
     (if randint d l < length opts then Some (opts ! randint d l) else None)"

fun sample_dict :: "draws \<Rightarrow> hp_node pydict \<Rightarrow> pyval pydict option" where
  "sample_dict d [] = Some []"
| "sample_dict d ((k, n) # ps) =
     (case sample_node d n of
        None \<Rightarrow> None
      | Some v \<Rightarrow> (case sample_dict d ps of None \<Rightarrow> None | Some r \<Rightarrow> Some ((k, v) # r)))"

definition stochastic_sample :: "draws \<Rightarrow> string \<times> hp_node pydict list \<Rightarrow> pyval pydict option" where
  \<comment> \<open>a \<^verbatim>\<open>choice\<close> among dictionaries: only the chosen one is evaluated;
      \<open>None\<close> marks an index that \<^verbatim>\<open>randint(len(options))\<close> cannot yield\<close>
  "stochastic_sample d space =
     (case space of (l, opts) \<Rightarrow>
        if randint d l < length opts then sample_dict d (opts ! randint d l) else None)"

definition trunc :: "real \<Rightarrow> int" where
  \<comment> \<open>\<^verbatim>\<open>int(v)\<close> of a float: towards zero\<close>
  "trunc x = (if 0 \<le> x then \<lfloor>x\<rfloor> else \<lceil>x\<rceil>)"

definition is_whole_float :: "pyval \<Rightarrow> bool" where
  \<comment> \<open>\<^verbatim>\<open>type(v) == float and int(v) == v\<close>\<close>
  "is_whole_float v = (case v of VFloat x \<Rightarrow> of_int (trunc x) = x | _ \<Rightarrow> False)"

definition py_int_of :: "pyval \<Rightarrow> pyval" where
  \<comment> \<open>\<^verbatim>\<open>int(v)\<close>, applied by the script to floats only\<close>
  "py_int_of v = (case v of VFloat x \<Rightarrow> VInt (trunc x) | _ \<Rightarrow> v)"

definition coerce_step :: "string \<times> pyval \<Rightarrow> pyval pydict \<Rightarrow> pyval pydict" where
  "coerce_step kv params =
     (case kv of (k, v) \<Rightarrow> if is_whole_float v then dict_set k (py_int_of v) params else params)"

definition is_not_default :: "(pyval \<Rightarrow> bool) \<Rightarrow> pyval \<Rightarrow> bool" where
  \<comment> \<open>\<^verbatim>\<open>v is not 'default'\<close>: object identity. Only a string equal to the literal can be
      the literal's object; whether it is, is the runtime's choice \<open>same_obj\<close>.\<close>
  "is_not_default same_obj v = (\<not> (v = VStr ''default'' \<and> same_obj v))"

definition space :: "string \<times> hp_node pydict list" where
  "space =
     (case xgb_hyp of (gbtree_hyp, dart_hyp) \<Rightarrow>
        (''booster'', [gbtree_hyp, dict_merge gbtree_hyp dart_hyp]))"

definition get_hyp_config :: "(pyval \<Rightarrow> bool) \<Rightarrow> draws \<Rightarrow> pyval pydict option" where
  "get_hyp_config same_obj d =
     (case stochastic_sample d space of
        None \<Rightarrow> None
      | Some params \<Rightarrow>
          let params' = fold coerce_step params params
          in Some (filter (\<lambda>(k, v). is_not_default same_obj v) params'))"

definition coerced :: "pyval \<Rightarrow> pyval" where
  \<comment> \<open>what the loop of \<open>get_hyp_config\<close> leaves in place of a sampled value\<close>
  "coerced v = (if is_whole_float v then py_int_of v else v)"

section \<open>Tables and the train/test split\<close>

text \<open>
  A \<^verbatim>\<open>pandas.DataFrame\<close> of numbers: the column headers and the rows, each row
  holding one cell per header.
\<close>

record dataframe =
  columns :: "string list"
  rows :: "real list list"

definition positions :: "string \<Rightarrow> string list \<Rightarrow> nat list" where
  "positions n cols = filter (\<lambda>i. cols ! i = n) [0..<length cols]"

definition df_getitem_list :: "string list \<Rightarrow> dataframe \<Rightarrow> dataframe" where
  \<comment> \<open>\<^verbatim>\<open>df[names]\<close>: for each requested name, every column carrying it\<close>
  "df_getitem_list names df =
     (let sel = concat (map (\<lambda>n. positions n (columns df)) names)
      in \<lparr>columns = map (\<lambda>i. columns df ! i) sel,
          rows = map (\<lambda>r. map (\<lambda>i. r ! i) sel) (rows df)\<rparr>)"

definition df_getitem :: "string \<Rightarrow> dataframe \<Rightarrow> py_error + real list" where
  \<comment> \<open>\<^verbatim>\<open>df[name]\<close>: a missing name raises \<^verbatim>\<open>KeyError\<close>, a name borne by one column
      gives that column as a Series. A header that repeats the name gives a frame
      instead, on which the behaviour of the later library calls is not modelled:
      \<open>LibraryError\<close>.\<close>
  "df_getitem name df =
     (case positions name (columns df) of
        [] \<Rightarrow> Inl (KeyError name)
      | [i] \<Rightarrow> Inr (map (\<lambda>r. r ! i) (rows df))
      | _ \<Rightarrow> Inl LibraryError)"

definition iloc :: "nat list \<Rightarrow> 'a list \<Rightarrow> 'a list" where
  "iloc idx xs = map (\<lambda>i. xs ! i) idx"

definition df_assign :: "string \<Rightarrow> real list \<Rightarrow> dataframe \<Rightarrow> dataframe" where
  \<comment> \<open>\<^verbatim>\<open>df.assign(name = vals)\<close>: overwrite the column of that name, or append it\<close>
  "df_assign name vals df =
     (if name \<in> set (columns df) then
        df\<lparr>rows := map2 (\<lambda>r v. map2 (\<lambda>c x. if c = name then v else x) (columns df) r)
                        (rows df) vals\<rparr>
      else
        df\<lparr>columns := columns df @ [name], rows := map2 (\<lambda>r v. r @ [v]) (rows df) vals\<rparr>)"

text \<open>What \<^verbatim>\<open>xgb.DMatrix(data, label, feature_names)\<close> was built from.\<close>

record dmatrix =
  data :: "real list list"
  label :: "real list"
  feature_names :: "string list"

text \<open>A trained booster: its string attributes, as \<^verbatim>\<open>bst.attr\<close> reads them.\<close>

record booster =
  attrs :: "(string \<times> string) list"

section \<open>The command line, the libraries and the files written\<close>

record args =
  args_data_file :: string
  args_channel :: string
  args_mode :: string
  args_num_boost_rounds :: "int option"
  args_randomhp :: bool
  args_deeptrees :: bool
  args_diagnostics :: bool

text \<open>
  The library calls whose results the script only passes on are parameters:
  \<^item> \<open>read_hdf path\<close>: the table stored at \<open>path\<close>, if there is one;
  \<^item> \<open>train_test_split random_state test_size n\<close>: the row indices of the train part
    and of the test part that scikit-learn picks for \<open>n\<close> rows, or \<open>None\<close> when it
    raises (an empty part);
  \<^item> \<open>xgb_train params dtrain evals num_boost_round early_stopping_rounds verbose_eval\<close>;
  \<^item> \<open>predict bst dmat\<close>: one probability per row of \<open>dmat\<close>;
  \<^item> \<open>py_float\<close>, \<open>py_int\<close>: the built-in conversions of a string;
  \<^item> \<open>strftime\<close>: the clock, formatted;
  \<^item> \<open>literal_identity\<close>: whether a string equal to a literal is the literal's object.
\<close>

record extern =
  read_hdf :: "string \<Rightarrow> dataframe option"
  train_test_split :: "nat \<Rightarrow> real \<Rightarrow> nat \<Rightarrow> (nat list \<times> nat list) option"
  xgb_train :: "pyval pydict \<Rightarrow> dmatrix \<Rightarrow> (dmatrix \<times> string) list \<Rightarrow> int \<Rightarrow> nat \<Rightarrow> nat
                \<Rightarrow> booster option"
  predict :: "booster \<Rightarrow> dmatrix \<Rightarrow> real list"
  py_float :: "string \<Rightarrow> real option"
  py_int :: "string \<Rightarrow> int option"
  strftime :: string
  literal_identity :: "pyval \<Rightarrow> bool"

datatype figure =
    RocCurve "real list" "real list" "string \<times> string \<times> pyval \<times> pyval"
  | ImportanceBars booster

datatype artifact =
    DMatrixBuffer dmatrix
  | TestTable dataframe
  | ModelFile booster
  | JsonFile "pyval pydict"
  | PdfFigure figure
  | NpyArray "real list"

datatype event =
    Wrote string artifact
  | PrintedAccuracy "real option"

fun path_join2 :: "string \<Rightarrow> string \<Rightarrow> string" where
  "path_join2 a b =
     (if b \<noteq> [] \<and> hd b = CHR ''/'' then b
      else if a = [] \<or> last a = CHR ''/'' then a @ b
      else a @ ''/'' @ b)"

definition os_path_join :: "string \<Rightarrow> string list \<Rightarrow> string" where
  "os_path_join a ps = foldl path_join2 a ps"

fun digits10 :: "nat \<Rightarrow> string" where
  "digits10 n =
     (if n < 10 then [char_of (48 + n)] else digits10 (n div 10) @ [char_of (48 + n mod 10)])"

definition str_int :: "int \<Rightarrow> string" where
  "str_int i = (if i < 0 then CHR ''-'' # digits10 (nat (- i)) else digits10 (nat i))"

section \<open>Loading the data\<close>

definition load_data ::
  "extern \<Rightarrow> string \<Rightarrow> string \<Rightarrow> string \<Rightarrow> real
     \<Rightarrow> py_error + ((dmatrix \<times> dmatrix) \<times> real list) \<times> event list" where
  "load_data ex fname mode channel test_size =
     (case read_hdf ex fname of
        None \<Rightarrow> Inl LibraryError
      | Some df \<Rightarrow>
          let X = df_getitem_list (butlast (columns df)) df in
          case df_getitem ''labels'' df of
            Inl e \<Rightarrow> Inl e
          | Inr y \<Rightarrow>
              (case train_test_split ex 24601 test_size (length (rows df)) of
                 None \<Rightarrow> Inl ValueError
               | Some (tr, te) \<Rightarrow>
                   let df_X_train = X\<lparr>rows := iloc tr (rows X)\<rparr>;
                       df_X_test = X\<lparr>rows := iloc te (rows X)\<rparr>;
                       df_y_train = iloc tr y;
                       df_y_test = iloc te y;
                       dTrain = \<lparr>data = rows df_X_train, label = df_y_train,
                                 feature_names = butlast (columns df)\<rparr>;
                       dTest = \<lparr>data = rows df_X_test, label = df_y_test,
                                feature_names = butlast (columns df)\<rparr>;
                       df_test = df_assign ''labels'' df_y_test df_X_test
                   in Inr (((dTrain, dTest), df_y_test),
                           [Wrote (os_path_join ''dmatrices''
                                     [channel, ''dTrain'' @ mode @ channel @ ''.buffer''])
                                  (DMatrixBuffer dTrain),
                            Wrote (os_path_join ''dmatrices''
                                     [channel, ''dTest'' @ mode @ channel @ ''.buffer''])
                                  (DMatrixBuffer dTest),
                            Wrote (os_path_join ''test''
                                     [channel, ''dTest'' @ mode @ channel @ ''.h5''])
                                  (TestTable df_test)])))"

section \<open>Training\<close>

fun split_on :: "char \<Rightarrow> string \<Rightarrow> string list" where
  "split_on c [] = [[]]"
| "split_on c (x # xs) =
     (if x = c then [] # split_on c xs
      else (case split_on c xs of [] \<Rightarrow> [[x]] | w # ws \<Rightarrow> (x # w) # ws))"

definition second_last :: "'a list \<Rightarrow> py_error + 'a" where
  \<comment> \<open>\<^verbatim>\<open>xs[-2]\<close>\<close>
  "second_last xs = (if 2 \<le> length xs then Inr (xs ! (length xs - 2)) else Inl IndexError)"

definition attr :: "booster \<Rightarrow> string \<Rightarrow> string option" where
  "attr bst k = map_of (attrs bst) k"

definition evalDict_of :: "extern \<Rightarrow> booster \<Rightarrow> py_error + pyval pydict" where
  "evalDict_of ex bst =
     (case attr bst ''best_score'' of
        None \<Rightarrow> Inl TypeError
      | Some s \<Rightarrow>
     (case py_float ex s of
        None \<Rightarrow> Inl ValueError
      | Some auc \<Rightarrow>
     (case attr bst ''best_msg'' of
        None \<Rightarrow> Inl AttributeError
      | Some msg \<Rightarrow>
     (case second_last (split_on (CHR 0x09) msg) of
        Inl e \<Rightarrow> Inl e
      | Inr err \<Rightarrow>
     (case attr bst ''best_iteration'' of
        None \<Rightarrow> Inl TypeError
      | Some it \<Rightarrow>
     (case py_int ex it of
        None \<Rightarrow> Inl ValueError
      | Some best \<Rightarrow>
          Inr (dict_literal
                 [(''auc'', VFloat auc), (''error@0.5'', VStr err),
                  (''best_iteration'', VInt best)])))))))"

text \<open>
  The trainer returns the booster and the evaluation record; the model also returns
  the state in which the call leaves the caller's \<^verbatim>\<open>hyp_params\<close> object, and the
  file written.
\<close>

definition train_hyp_config ::
  "extern \<Rightarrow> args \<Rightarrow> dmatrix \<times> dmatrix \<Rightarrow> pyval pydict \<Rightarrow> int
     \<Rightarrow> py_error + (booster \<times> pyval pydict) \<times> pyval pydict \<times> event list" where
  "train_hyp_config ex a dat hyp_params num_boost_rounds =
     (let hyp_params' = dict_set ''eval_metric'' (VStr ''error@0.5'') hyp_params;
          pList = hyp_params' @ [(''eval_metric'', VStr ''auc'')];
          nTrees = num_boost_rounds;
          dTrain = fst dat;
          dTest = snd dat;
          evalList = [(dTrain, ''train''), (dTest, ''eval'')]
      in case xgb_train ex pList dTrain evalList nTrees 256 25 of
           None \<Rightarrow> Inl LibraryError
         | Some bst \<Rightarrow>
             (case evalDict_of ex bst of
                Inl e \<Rightarrow> Inl e
              | Inr evalDict \<Rightarrow>
                  let model_output =
                        os_path_join ''models'' [args_channel a, args_mode a @ str_int nTrees @ ''.model'']
                  in Inr ((bst, evalDict), hyp_params', [Wrote model_output (ModelFile bst)])))"

definition run_hyp_config ::
  "extern \<Rightarrow> args \<Rightarrow> dmatrix \<times> dmatrix \<Rightarrow> pyval pydict \<Rightarrow> real \<Rightarrow> real
     \<Rightarrow> py_error + (booster \<times> pyval pydict) \<times> pyval pydict \<times> event list" where
  "run_hyp_config ex a dat hyp_params n_iterations rounds_per_iteration =
     train_hyp_config ex a dat hyp_params (round_half_even (n_iterations * rounds_per_iteration))"

definition save_results :: "extern \<Rightarrow> args \<Rightarrow> pyval pydict \<Rightarrow> event list" where
  "save_results ex a results =
     [Wrote (os_path_join ''models'' [args_channel a, args_mode a @ strftime ex @ ''.json''])
            (JsonFile results)]"

section \<open>Diagnostics\<close>

definition plot_importances :: "args \<Rightarrow> booster \<Rightarrow> event list" where
  "plot_importances a bst =
     [Wrote (os_path_join ''graphs'' [args_channel a @ args_mode a @ ''xgb_importances.pdf''])
            (PdfFigure (ImportanceBars bst))]"

definition plot_ROC_curve ::
  "args \<Rightarrow> real list \<Rightarrow> real list \<Rightarrow> string \<times> string \<times> pyval \<times> pyval \<Rightarrow> event list" where
  "plot_ROC_curve a y_true y_pred meta =
     [Wrote (os_path_join ''graphs'' [args_channel a @ args_mode a @ ''ROC.pdf''])
            (PdfFigure (RocCurve y_true y_pred meta))]"

definition np_greater :: "real list \<Rightarrow> real \<Rightarrow> bool list" where
  "np_greater xs t = map (\<lambda>x. t < x) xs"

definition bool_eq :: "bool \<Rightarrow> real \<Rightarrow> bool" where
  \<comment> \<open>a boolean compared with a number: \<^verbatim>\<open>True == 1\<close>, \<^verbatim>\<open>False == 0\<close>\<close>
  "bool_eq b y = ((if b then 1 else 0) = y)"

definition np_equal :: "bool list \<Rightarrow> real list \<Rightarrow> py_error + bool list" where
  \<comment> \<open>elementwise, an array of one element being broadcast\<close>
  "np_equal bs ys =
     (if length bs = length ys then Inr (map2 bool_eq bs ys)
      else if length bs = 1 then Inr (map (bool_eq (hd bs)) ys)
      else if length ys = 1 then Inr (map (\<lambda>b. bool_eq b (hd ys)) bs)
      else Inl ValueError)"

definition np_mean :: "bool list \<Rightarrow> real option" where
  \<comment> \<open>the mean of an empty array is \<^verbatim>\<open>nan\<close>: \<open>None\<close>\<close>
  "np_mean bs =
     (if bs = [] then None
      else Some (sum_list (map (\<lambda>b. if b then 1 else 0) bs) / real (length bs)))"

definition np_save_name :: "string \<Rightarrow> string" where
  \<comment> \<open>\<^verbatim>\<open>np.save\<close> appends \<^verbatim>\<open>.npy\<close> to a name that does not end with it\<close>
  "np_save_name f =
     (if 4 \<le> length f \<and> drop (length f - 4) f = ''.npy'' then f else f @ ''.npy'')"

definition diagnostics ::
  "extern \<Rightarrow> args \<Rightarrow> pyval pydict \<Rightarrow> dmatrix \<times> dmatrix \<Rightarrow> real list \<Rightarrow> booster
     \<Rightarrow> py_error + event list" where
  "diagnostics ex a hp dataDMatrix df_y_test bst =
     (let dTest = snd dataDMatrix;
          xgb_pred = predict ex bst dTest;
          y_pred = np_greater xgb_pred (1/2);
          y_true = df_y_test
      in case np_equal y_pred y_true of
           Inl e \<Rightarrow> Inl e
         | Inr eq \<Rightarrow>
             let test_accuracy = np_mean eq in
             (case dict_get hp ''eta'' of
                Inl e \<Rightarrow> Inl e
              | Inr eta \<Rightarrow>
                  (case dict_get hp ''max_depth'' of
                     Inl e \<Rightarrow> Inl e
                   | Inr depth \<Rightarrow>
                       Inr ([PrintedAccuracy test_accuracy]
                            @ plot_ROC_curve a y_true xgb_pred (args_channel a, args_mode a, eta, depth)
                            @ plot_importances a bst
                            @ [Wrote (np_save_name (os_path_join ''test''
                                        [args_channel a, ''yPred_'' @ args_mode a @ ''_'' @ args_channel a]))
                                     (NpyArray xgb_pred)]))))"

section \<open>The script\<close>

definition num_boost_rounds :: "args \<Rightarrow> int" where
  \<comment> \<open>\<^verbatim>\<open>num_boost_rounds = 512\<close>, then \<^verbatim>\<open>if args.num_boost_rounds:\<close> the flag's value; the
      flag is \<open>None\<close> when absent, and the test is Python's truth value of it\<close>
  "num_boost_rounds a =
     (case args_num_boost_rounds a of
        None \<Rightarrow> 512
      | Some n \<Rightarrow> if n \<noteq> 0 then n else 512)"

definition main :: "extern \<Rightarrow> draws \<Rightarrow> args \<Rightarrow> py_error + event list" where
  "main ex d a =
     (case load_data ex (args_data_file a) (args_mode a) (args_channel a) (5/100) of
        Inl e \<Rightarrow> Inl e
      | Inr ((dataDMatrix, df_y_test), ev1) \<Rightarrow>
     (case (if args_randomhp a then get_hyp_config (literal_identity ex) d
            else Some (hp_default_config (args_deeptrees a))) of
        None \<Rightarrow> Inl LibraryError
      | Some hp \<Rightarrow>
     (case train_hyp_config ex a dataDMatrix hp (num_boost_rounds a) of
        Inl e \<Rightarrow> Inl e
      | Inr ((bst, results), hp', ev2) \<Rightarrow>
          let ev3 = save_results ex a results in
          if args_diagnostics a then
            (case diagnostics ex a hp' dataDMatrix df_y_test bst of
               Inl e \<Rightarrow> Inl e
             | Inr ev4 \<Rightarrow> Inr (ev1 @ ev2 @ ev3 @ ev4))
          else Inr (ev1 @ ev2 @ ev3))))"

section \<open>Example inputs\<close>

definition example_draws :: draws where
  "example_draws =
     \<lparr>unif = (\<lambda>l. if l = ''md'' then 15/2 else if l = ''ss'' then 1 else 1/8),
      randint = (\<lambda>l. 1)\<rparr>"

definition example_table :: dataframe where
  "example_table =
     \<lparr>columns = [''a'', ''b'', ''labels''], rows = [[1, 5, 0], [0, 7, 1], [3, 4, 1]]\<rparr>"

definition labels_first_table :: dataframe where
  "labels_first_table = \<lparr>columns = [''labels'', ''x''], rows = [[1, 5], [0, 7]]\<rparr>"

definition example_booster :: booster where
  "example_booster =
     \<lparr>attrs =
        [(''best_score'', ''0.9''),
         (''best_msg'',
          ''[3]'' @ [CHR 0x09] @ ''train-error@0.5:0.1'' @ [CHR 0x09] @ ''train-auc:0.95''
            @ [CHR 0x09] @ ''eval-error@0.5:0.2'' @ [CHR 0x09] @ ''eval-auc:0.9''),
         (''best_iteration'', ''3'')]\<rparr>"

definition example_extern :: extern where
  "example_extern =
     \<lparr>read_hdf = (\<lambda>p. if p = ''t.h5'' then Some example_table
                       else if p = ''u.h5'' then Some labels_first_table else None),
      train_test_split = (\<lambda>seed ts n. if seed = 24601 then Some (rev [1..<n], [0]) else None),
      xgb_train = (\<lambda>params dtrain evals n early verbose. Some example_booster),
      predict = (\<lambda>bst m. map (\<lambda>r. 3/4) (data m)),
      py_float = (\<lambda>s. if s = ''0.9'' then Some (9/10) else None),
      py_int = (\<lambda>s. if s = ''3'' then Some 3 else None),
      strftime = ''Nov_03_12:00'',
      literal_identity = (\<lambda>v. True)\<rparr>"

definition example_args :: args where
  "example_args =
     \<lparr>args_data_file = ''t.h5'', args_channel = ''kstar'', args_mode = ''cont'',
      args_num_boost_rounds = Some 0, args_randomhp = False, args_deeptrees = False,
      args_diagnostics = True\<rparr>"

section \<open>The sampled configuration, in closed form\<close>


lemma dict_set_append:
  "k \<notin> fst ` set pre \<Longrightarrow> dict_set k w (pre @ (k, v) # rest) = pre @ (k, w) # rest"
  by (induction pre) auto

lemma fold_coerce_step_suffix:
  "distinct (map fst suf) \<Longrightarrow> fst ` set pre \<inter> fst ` set suf = {} \<Longrightarrow>
   fold coerce_step suf (pre @ suf) = pre @ map (\<lambda>(k, v). (k, coerced v)) suf"
proof (induction suf arbitrary: pre)
  case Nil
  then show ?case by simp
next
  case (Cons kv suf)
  obtain k v where kv: "kv = (k, v)" by (cases kv)
  from Cons.prems have notin: "k \<notin> fst ` set pre" and fresh: "k \<notin> fst ` set suf"
    and dist: "distinct (map fst suf)"
    by (auto simp: kv)
  have step: "coerce_step (k, v) (pre @ (k, v) # suf) = (pre @ [(k, coerced v)]) @ suf"
    using notin by (simp add: coerce_step_def coerced_def dict_set_append)
  have disj: "fst ` set (pre @ [(k, coerced v)]) \<inter> fst ` set suf = {}"
    using Cons.prems fresh by (auto simp: kv)
  show ?case
    using Cons.IH [OF dist disj] by (simp add: step kv)
qed

lemma fold_coerce_step:
  "distinct (map fst ps) \<Longrightarrow> fold coerce_step ps ps = map (\<lambda>(k, v). (k, coerced v)) ps"
  using fold_coerce_step_suffix [of ps "[]"] by simp

lemma space_eq:
  "space =
     (''booster'',
      [[(''booster'', Lit (VStr ''gbtree'')),
        (''eta'', Uniform ''lr'' (1/100) (17/100)),
        (''gamma'', Uniform ''mlr'' (5/100) (25/10)),
        (''min_child_weight'', Uniform ''mcw'' 0 2),
        (''max_depth'', QUniform ''md'' 3 9 1),
        (''subsample'', Uniform ''ss'' (7/10) 1),
        (''colsample_bytree'', Uniform ''cs'' (7/10) 1),
        (''objective'', Lit (VStr ''binary:logistic'')),
        (''silent'', Lit (VInt 1))],
       [(''booster'', Lit (VStr ''dart'')),
        (''eta'', Uniform ''lr'' (1/100) (17/100)),
        (''gamma'', Uniform ''mlr'' (5/100) (25/10)),
        (''min_child_weight'', Uniform ''mcw'' 0 2),
        (''max_depth'', QUniform ''md'' 3 9 1),
        (''subsample'', Uniform ''ss'' (7/10) 1),
        (''colsample_bytree'', Uniform ''cs'' (7/10) 1),
        (''objective'', Lit (VStr ''binary:logistic'')),
        (''silent'', Lit (VInt 1)),
        (''sample_type'', Choice ''dart_st'' [VStr ''uniform'', VStr ''weighted'']),
        (''normalize_type'', Choice ''dart_nt'' [VStr ''tree'', VStr ''forest'']),
        (''rate_drop'', Uniform ''dropout'' 0 (3/10)),
        (''skip_drop'', Uniform ''skip'' 0 (25/100))]])"
  by (simp add: space_def xgb_hyp_def dict_literal_def dict_merge_def)


lemma coerced_VStr [simp]: "coerced (VStr s) = VStr s"
  by (simp add: coerced_def is_whole_float_def)

lemma coerced_VInt [simp]: "coerced (VInt i) = VInt i"
  by (simp add: coerced_def is_whole_float_def)

lemma coerced_not_VStr [simp]: "coerced (VFloat x) \<noteq> VStr s" "VStr s \<noteq> coerced (VFloat x)"
  by (simp_all add: coerced_def is_whole_float_def py_int_of_def)

lemma coerced_not_whole [simp]: "\<not> is_whole_float (coerced v)"
  by (cases v) (simp_all add: coerced_def is_whole_float_def py_int_of_def)

lemma is_not_default_coerced_float [simp]: "is_not_default so (coerced (VFloat x))"
  by (simp add: is_not_default_def)

lemma is_not_default_VInt [simp]: "is_not_default so (VInt i)"
  by (simp add: is_not_default_def)

lemma sample_gbtree:
  assumes "randint d ''booster'' = 0"
  shows "stochastic_sample d space =
     Some [(''booster'', VStr ''gbtree''),
        (''eta'', VFloat (unif d ''lr'')),
        (''gamma'', VFloat (unif d ''mlr'')),
        (''min_child_weight'', VFloat (unif d ''mcw'')),
        (''max_depth'', VFloat (of_int (round_half_even (unif d ''md'' / 1)) * 1)),
        (''subsample'', VFloat (unif d ''ss'')),
        (''colsample_bytree'', VFloat (unif d ''cs'')),
        (''objective'', VStr ''binary:logistic''),
        (''silent'', VInt 1)]"
  using assms by (simp add: stochastic_sample_def space_eq)

lemma sample_dart:
  assumes "randint d ''booster'' = 1" "randint d ''dart_st'' < 2" "randint d ''dart_nt'' < 2"
  shows "stochastic_sample d space =
     Some [(''booster'', VStr ''dart''),
        (''eta'', VFloat (unif d ''lr'')),
        (''gamma'', VFloat (unif d ''mlr'')),
        (''min_child_weight'', VFloat (unif d ''mcw'')),
        (''max_depth'', VFloat (of_int (round_half_even (unif d ''md'' / 1)) * 1)),
        (''subsample'', VFloat (unif d ''ss'')),
        (''colsample_bytree'', VFloat (unif d ''cs'')),
        (''objective'', VStr ''binary:logistic''),
        (''silent'', VInt 1),
        (''sample_type'', VStr ([''uniform'', ''weighted''] ! randint d ''dart_st'')),
        (''normalize_type'', VStr ([''tree'', ''forest''] ! randint d ''dart_nt'')),
        (''rate_drop'', VFloat (unif d ''dropout'')),
        (''skip_drop'', VFloat (unif d ''skip''))]"
proof -
  have st: "randint d ''dart_st'' = 0 \<or> randint d ''dart_st'' = 1" using assms(2) by auto
  have nt: "randint d ''dart_nt'' = 0 \<or> randint d ''dart_nt'' = 1" using assms(3) by auto
  show ?thesis using assms(1) st nt
    by (auto simp add: stochastic_sample_def space_eq)
qed

lemma sample_Some_cases:
  assumes "stochastic_sample d space = Some p"
  shows "randint d ''booster'' = 0 \<or>
         (randint d ''booster'' = 1 \<and> randint d ''dart_st'' < 2 \<and> randint d ''dart_nt'' < 2)"
proof -
  have "randint d ''booster'' < 2"
    using assms by (simp add: stochastic_sample_def space_eq split: if_splits)
  then have b: "randint d ''booster'' = 0 \<or> randint d ''booster'' = 1" by auto
  show ?thesis
  proof (cases "randint d ''booster'' = 0")
    case True then show ?thesis by simp
  next
    case False
    with b have b1: "randint d ''booster'' = 1" by simp
    show ?thesis using assms b1
      by (simp add: stochastic_sample_def space_eq split: if_splits)
  qed
qed

lemma is_whole_float_simps [simp]:
  "\<not> is_whole_float (VStr s)" "\<not> is_whole_float (VInt i)"
  by (simp_all add: is_whole_float_def)

lemma get_hyp_config_alt:
  assumes "stochastic_sample d space = Some ps" "distinct (map fst ps)"
  shows "get_hyp_config so d =
     Some (filter (\<lambda>(k, v). is_not_default so v) (map (\<lambda>(k, v). (k, coerced v)) ps))"
  using assms by (simp add: get_hyp_config_def fold_coerce_step)

lemma get_hyp_config_gbtree:
  assumes "randint d ''booster'' = 0"
  shows "get_hyp_config so d =
     Some [(''booster'', VStr ''gbtree''),
        (''eta'', coerced (VFloat (unif d ''lr''))),
        (''gamma'', coerced (VFloat (unif d ''mlr''))),
        (''min_child_weight'', coerced (VFloat (unif d ''mcw''))),
        (''max_depth'', coerced (VFloat (of_int (round_half_even (unif d ''md'' / 1)) * 1))),
        (''subsample'', coerced (VFloat (unif d ''ss''))),
        (''colsample_bytree'', coerced (VFloat (unif d ''cs''))),
        (''objective'', VStr ''binary:logistic''),
        (''silent'', VInt 1)]"
  by (subst get_hyp_config_alt [OF sample_gbtree [OF assms]])
     (simp_all add: is_not_default_def)

lemma get_hyp_config_dart:
  assumes "randint d ''booster'' = 1" "randint d ''dart_st'' < 2" "randint d ''dart_nt'' < 2"
  shows "get_hyp_config so d =
     Some [(''booster'', VStr ''dart''),
        (''eta'', coerced (VFloat (unif d ''lr''))),
        (''gamma'', coerced (VFloat (unif d ''mlr''))),
        (''min_child_weight'', coerced (VFloat (unif d ''mcw''))),
        (''max_depth'', coerced (VFloat (of_int (round_half_even (unif d ''md'' / 1)) * 1))),
        (''subsample'', coerced (VFloat (unif d ''ss''))),
        (''colsample_bytree'', coerced (VFloat (unif d ''cs''))),
        (''objective'', VStr ''binary:logistic''),
        (''silent'', VInt 1),
        (''sample_type'', VStr ([''uniform'', ''weighted''] ! randint d ''dart_st'')),
        (''normalize_type'', VStr ([''tree'', ''forest''] ! randint d ''dart_nt'')),
        (''rate_drop'', coerced (VFloat (unif d ''dropout''))),
        (''skip_drop'', coerced (VFloat (unif d ''skip'')))]"
proof -
  have st: "randint d ''dart_st'' = 0 \<or> randint d ''dart_st'' = 1" using assms(2) by auto
  have nt: "randint d ''dart_nt'' = 0 \<or> randint d ''dart_nt'' = 1" using assms(3) by auto
  have "[''uniform'', ''weighted''] ! randint d ''dart_st'' \<noteq> ''default''"
    using st by auto
  moreover have "[''tree'', ''forest''] ! randint d ''dart_nt'' \<noteq> ''default''"
    using nt by auto
  ultimately show ?thesis
    by (subst get_hyp_config_alt [OF sample_dart [OF assms]])
       (simp_all add: is_not_default_def)
qed

lemma get_hyp_config_Some_cases:
  assumes "get_hyp_config so d = Some p"
  shows "randint d ''booster'' = 0 \<or>
         (randint d ''booster'' = 1 \<and> randint d ''dart_st'' < 2 \<and> randint d ''dart_nt'' < 2)"
proof -
  obtain q where "stochastic_sample d space = Some q"
    using assms by (auto simp: get_hyp_config_def split: option.splits)
  then show ?thesis by (rule sample_Some_cases)
qed

lemma map_coerced_eq:
  "map (\<lambda>(k, v). (k, if is_whole_float v then py_int_of v else v)) ps
     = map (\<lambda>(k, v). (k, coerced v)) ps"
  by (simp add: coerced_def)

text \<open>
  Claim C1. Whatever the draws and whatever the runtime's identity of strings, the mapping
  that \<open>get_hyp_config\<close> returns is the sampled mapping in which every whole-number
  float has been replaced by its integer, nothing else being changed or dropped; no value
  of it is a whole-number float any more, and no value of it is the string \<^verbatim>\<open>default\<close>.
\<close>

theorem get_hyp_config_whole_floats_are_ints:
  assumes "get_hyp_config same_obj d = Some params"
  shows "(\<exists>sampled. stochastic_sample d space = Some sampled \<and>
            params = map (\<lambda>(k, v). (k, if is_whole_float v then py_int_of v else v)) sampled)
         \<and> (\<forall>(k, v) \<in> set params. \<not> is_whole_float v \<and> v \<noteq> VStr ''default'')"
proof -
  from get_hyp_config_Some_cases [OF assms] show ?thesis
  proof
    assume b: "randint d ''booster'' = 0"
    have p: "params = map (\<lambda>(k, v). (k, coerced v)) (the (stochastic_sample d space))"
      using assms unfolding get_hyp_config_gbtree [OF b] sample_gbtree [OF b] by auto
    have s: "stochastic_sample d space = Some (the (stochastic_sample d space))"
      by (simp add: sample_gbtree [OF b])
    have nd: "\<forall>(k, v) \<in> set params. \<not> is_whole_float v \<and> v \<noteq> VStr ''default''"
      using assms unfolding get_hyp_config_gbtree [OF b] by auto
    show ?thesis using p s nd unfolding map_coerced_eq by blast
  next
    assume b: "randint d ''booster'' = 1 \<and> randint d ''dart_st'' < 2 \<and> randint d ''dart_nt'' < 2"
    then have b1: "randint d ''booster'' = 1" and b2: "randint d ''dart_st'' < 2"
      and b3: "randint d ''dart_nt'' < 2" by simp_all
    have st: "randint d ''dart_st'' = 0 \<or> randint d ''dart_st'' = 1" using b2 by auto
    have nt: "randint d ''dart_nt'' = 0 \<or> randint d ''dart_nt'' = 1" using b3 by auto
    have p: "params = map (\<lambda>(k, v). (k, coerced v)) (the (stochastic_sample d space))"
      using assms unfolding get_hyp_config_dart [OF b1 b2 b3] sample_dart [OF b1 b2 b3] by auto
    have s: "stochastic_sample d space = Some (the (stochastic_sample d space))"
      by (simp add: sample_dart [OF b1 b2 b3])
    have nd: "\<forall>(k, v) \<in> set params. \<not> is_whole_float v \<and> v \<noteq> VStr ''default''"
      using assms st nt unfolding get_hyp_config_dart [OF b1 b2 b3]
      by auto
    show ?thesis using p s nd unfolding map_coerced_eq by blast
  qed
qed

lemma example_round: "round_half_even (15/2) = 8"
  by (simp add: round_half_even_def)

lemma example_config:
 "get_hyp_config (\<lambda>v. True) example_draws =
     Some [(''booster'', VStr ''dart''),
        (''eta'', VFloat (1/8)),
        (''gamma'', VFloat (1/8)),
        (''min_child_weight'', VFloat (1/8)),
        (''max_depth'', VInt 8),
        (''subsample'', VInt 1),
        (''colsample_bytree'', VFloat (1/8)),
        (''objective'', VStr ''binary:logistic''),
        (''silent'', VInt 1),
        (''sample_type'', VStr ''weighted''),
        (''normalize_type'', VStr ''forest''),
        (''rate_drop'', VFloat (1/8)),
        (''skip_drop'', VFloat (1/8))]"
  by (simp add: get_hyp_config_dart example_draws_def example_round coerced_def is_whole_float_def py_int_of_def trunc_def)

theorem get_hyp_config_whole_floats_are_ints_witness:
  "get_hyp_config (\<lambda>v. True) example_draws =
     Some [(''booster'', VStr ''dart''), (''eta'', VFloat (1/8)), (''gamma'', VFloat (1/8)),
        (''min_child_weight'', VFloat (1/8)), (''max_depth'', VInt 8),
        (''subsample'', VInt 1), (''colsample_bytree'', VFloat (1/8)),
        (''objective'', VStr ''binary:logistic''), (''silent'', VInt 1),
        (''sample_type'', VStr ''weighted''), (''normalize_type'', VStr ''forest''),
        (''rate_drop'', VFloat (1/8)), (''skip_drop'', VFloat (1/8))]
   \<and> (\<exists>sampled. stochastic_sample example_draws space = Some sampled \<and>
         map_of sampled ''max_depth'' = Some (VFloat 8) \<and>
         map_of sampled ''subsample'' = Some (VFloat 1))"
proof -
  have s: "stochastic_sample example_draws space =
     Some [(''booster'', VStr ''dart''), (''eta'', VFloat (1/8)), (''gamma'', VFloat (1/8)),
        (''min_child_weight'', VFloat (1/8)), (''max_depth'', VFloat 8),
        (''subsample'', VFloat 1), (''colsample_bytree'', VFloat (1/8)),
        (''objective'', VStr ''binary:logistic''), (''silent'', VInt 1),
        (''sample_type'', VStr ''weighted''), (''normalize_type'', VStr ''forest''),
        (''rate_drop'', VFloat (1/8)), (''skip_drop'', VFloat (1/8))]"
    by (simp add: sample_dart example_draws_def example_round)
  show ?thesis
    using get_hyp_config_whole_floats_are_ints [OF example_config] example_config
    by (simp add: s)
qed

section \<open>Keys and values of the hyperparameter mappings\<close>



lemma map_of_dict_set: "map_of (dict_set k v ps) = (map_of ps)(k \<mapsto> v)"
  by (induction ps) auto

lemma dict_get_dict_set_other: "k' \<noteq> k \<Longrightarrow> dict_get (dict_set k v ps) k' = dict_get ps k'"
  by (simp add: dict_get_def map_of_dict_set)

lemma hp_default_config_eq:
  "hp_default_config deep =
     (if deep then
          [(''eta'', VFloat (1/10)), (''seed'', VInt 0), (''subsample'', VFloat (75/100)),
           (''colsample_bytree'', VFloat (85/100)), (''gamma'', VFloat (25/10)),
           (''objective'', VStr ''binary:logistic''), (''max_depth'', VInt 8),
           (''min_child_weight'', VFloat (4/10)), (''silent'', VInt 1)]
      else
          [(''eta'', VFloat (1/10)), (''seed'', VInt 0), (''subsample'', VFloat (8/10)),
           (''colsample_bytree'', VFloat (9/10)), (''gamma'', VFloat (16/10)),
           (''objective'', VStr ''binary:logistic''), (''max_depth'', VInt 6),
           (''min_child_weight'', VInt 1), (''silent'', VInt 1)])"
  by (simp add: hp_default_config_def dict_literal_def)

text \<open>
  Claim C4. Every mapping returned by \<open>get_hyp_config\<close> has the nine common keys; each of
  the four dropout keys is in it exactly when the draw of the \<^verbatim>\<open>booster\<close> choice picked
  the second option (the tree space extended with \<^verbatim>\<open>dart_hyp\<close>), and then \<^verbatim>\<open>booster\<close> is
  \<^verbatim>\<open>dart\<close>, otherwise \<^verbatim>\<open>gbtree\<close>.
\<close>

theorem get_hyp_config_keys:
  assumes "get_hyp_config same_obj d = Some params"
  shows "(\<forall>k \<in> set [''booster'', ''eta'', ''gamma'', ''min_child_weight'', ''max_depth'',
                      ''subsample'', ''colsample_bytree'', ''objective'', ''silent''].
            k \<in> set (keys params))
       \<and> (\<forall>k \<in> set [''sample_type'', ''normalize_type'', ''rate_drop'', ''skip_drop''].
            k \<in> set (keys params) \<longleftrightarrow> randint d ''booster'' = 1)
       \<and> dict_get params ''booster''
            = Inr (VStr (if randint d ''booster'' = 1 then ''dart'' else ''gbtree''))"
proof -
  from get_hyp_config_Some_cases [OF assms] show ?thesis
  proof
    assume b: "randint d ''booster'' = 0"
    have p: "keys params = [''booster'', ''eta'', ''gamma'', ''min_child_weight'', ''max_depth'',
                      ''subsample'', ''colsample_bytree'', ''objective'', ''silent'']"
      and q: "dict_get params ''booster'' = Inr (VStr ''gbtree'')"
      using assms unfolding get_hyp_config_gbtree [OF b] by (auto simp: keys_def dict_get_def)
    show ?thesis unfolding p q using b by simp
  next
    assume b: "randint d ''booster'' = 1 \<and> randint d ''dart_st'' < 2 \<and> randint d ''dart_nt'' < 2"
    then have b1: "randint d ''booster'' = 1" and b2: "randint d ''dart_st'' < 2"
      and b3: "randint d ''dart_nt'' < 2" by simp_all
    have p: "keys params = [''booster'', ''eta'', ''gamma'', ''min_child_weight'', ''max_depth'',
                      ''subsample'', ''colsample_bytree'', ''objective'', ''silent'',
                      ''sample_type'', ''normalize_type'', ''rate_drop'', ''skip_drop'']"
      and q: "dict_get params ''booster'' = Inr (VStr ''dart'')"
      using assms unfolding get_hyp_config_dart [OF b1 b2 b3] by (auto simp: keys_def dict_get_def)
    show ?thesis unfolding p q using b1 by simp
  qed
qed

lemma example_randint: "randint example_draws l = 1"
  by (simp add: example_draws_def)

theorem get_hyp_config_keys_witness:
  "get_hyp_config (\<lambda>v. True) example_draws \<noteq> None
   \<and> randint example_draws ''booster'' = 1
   \<and> ''eta'' \<in> set (keys (the (get_hyp_config (\<lambda>v. True) example_draws)))
   \<and> ''rate_drop'' \<in> set (keys (the (get_hyp_config (\<lambda>v. True) example_draws)))
   \<and> dict_get (the (get_hyp_config (\<lambda>v. True) example_draws)) ''booster'' = Inr (VStr ''dart'')"
  using get_hyp_config_keys [OF example_config] example_randint [of "''booster''"]
  by (simp add: example_config keys_def dict_get_def)

lemma diagnostics_no_KeyError:
  assumes "dict_get hp ''eta'' = Inr v1" "dict_get hp ''max_depth'' = Inr v2"
  shows "diagnostics ex a hp dm y bst \<noteq> Inl (KeyError k)"
  using assms by (simp add: diagnostics_def np_equal_def Let_def split: sum.splits)


lemma coerced_of_int [simp]: "coerced (VFloat (of_int n)) = VInt n"
  by (simp add: coerced_def is_whole_float_def py_int_of_def trunc_def)


text \<open>
  Claim C9. A mapping built by \<open>hp_default_config\<close> (either flag) or returned by
  \<open>get_hyp_config\<close> (either branch) has the keys \<^verbatim>\<open>eta\<close> and \<^verbatim>\<open>max_depth\<close>, so
  \<open>diagnostics\<close> never fails with a \<^verbatim>\<open>KeyError\<close> on it, neither as built nor as the
  trainer leaves it (with \<^verbatim>\<open>eval_metric\<close> set).
\<close>

theorem hp_has_eta_and_max_depth:
  assumes "hp = hp_default_config deep \<or> get_hyp_config same_obj d = Some hp"
  shows "(\<exists>v. dict_get hp ''eta'' = Inr v) \<and> (\<exists>v. dict_get hp ''max_depth'' = Inr v)
       \<and> (\<forall>k. diagnostics ex a hp dm y bst \<noteq> Inl (KeyError k))
       \<and> (\<forall>k. diagnostics ex a (dict_set ''eval_metric'' (VStr ''error@0.5'') hp) dm y bst
                \<noteq> Inl (KeyError k))"
proof -
  have look: "(\<exists>v. dict_get hp ''eta'' = Inr v) \<and> (\<exists>v. dict_get hp ''max_depth'' = Inr v)"
    using assms
  proof
    assume "hp = hp_default_config deep"
    then show ?thesis by (simp add: hp_default_config_eq dict_get_def)
  next
    assume g: "get_hyp_config same_obj d = Some hp"
    from get_hyp_config_Some_cases [OF g] show ?thesis
    proof
      assume b: "randint d ''booster'' = 0"
      show ?thesis using g unfolding get_hyp_config_gbtree [OF b] by (auto simp: dict_get_def)
    next
      assume b: "randint d ''booster'' = 1 \<and> randint d ''dart_st'' < 2 \<and> randint d ''dart_nt'' < 2"
      then have b1: "randint d ''booster'' = 1" and b2: "randint d ''dart_st'' < 2"
        and b3: "randint d ''dart_nt'' < 2" by simp_all
      show ?thesis using g unfolding get_hyp_config_dart [OF b1 b2 b3]
        by (auto simp: dict_get_def)
    qed
  qed
  then obtain v1 v2 where e: "dict_get hp ''eta'' = Inr v1" and m: "dict_get hp ''max_depth'' = Inr v2"
    by blast
  have e': "dict_get (dict_set ''eval_metric'' (VStr ''error@0.5'') hp) ''eta'' = Inr v1"
    using e by (simp add: dict_get_dict_set_other)
  have m': "dict_get (dict_set ''eval_metric'' (VStr ''error@0.5'') hp) ''max_depth'' = Inr v2"
    using m by (simp add: dict_get_dict_set_other)
  show ?thesis
    using look diagnostics_no_KeyError [OF e m] diagnostics_no_KeyError [OF e' m'] by blast
qed

theorem hp_has_eta_and_max_depth_witness:
  "dict_get (hp_default_config True) ''eta'' = Inr (VFloat (1/10))
   \<and> dict_get (hp_default_config True) ''max_depth'' = Inr (VInt 8)
   \<and> (\<exists>v. dict_get (hp_default_config True) ''eta'' = Inr v)
   \<and> (\<exists>v. dict_get (hp_default_config True) ''max_depth'' = Inr v)"
  using hp_has_eta_and_max_depth [of "hp_default_config True" True]
  by (simp add: hp_default_config_eq dict_get_def)





section \<open>The trainer\<close>



lemma dict_set_fresh: "k \<notin> set (keys ps) \<Longrightarrow> dict_set k v ps = ps @ [(k, v)]"
  by (induction ps) (auto simp: keys_def)

lemma keys_dict_set_present: "k \<in> set (keys ps) \<Longrightarrow> keys (dict_set k v ps) = keys ps"
proof (induction ps)
  case Nil
  then show ?case by (simp add: keys_def)
next
  case (Cons p ps)
  obtain k' v' where p: "p = (k', v')" by (cases p)
  show ?case
  proof (cases "k' = k")
    case True
    then show ?thesis by (simp add: p keys_def)
  next
    case False
    with Cons.prems have "k \<in> set (keys ps)" by (simp add: p keys_def)
    then have "keys (dict_set k v ps) = keys ps" by (rule Cons.IH)
    then show ?thesis using False by (simp add: p keys_def)
  qed
qed

lemma train_hyp_config_state:
  assumes "train_hyp_config ex a dm hp n = Inr (r, hp', evs)"
  shows "hp' = dict_set ''eval_metric'' (VStr ''error@0.5'') hp"
  using assms by (auto simp: train_hyp_config_def Let_def split: option.splits sum.splits)

text \<open>
  Claim C2, as amended. A call of \<open>train_hyp_config\<close> that returns leaves the caller's
  mapping changed in exactly one place: the key \<^verbatim>\<open>eval_metric\<close> holds \<^verbatim>\<open>error@0.5\<close>. Every
  other key keeps its value; the key is appended when the mapping did not have it, and
  the keys are unchanged when it did.
\<close>

theorem train_hyp_config_sets_eval_metric:
  assumes "train_hyp_config ex a dm hyp_params n = Inr (r, hyp_params', evs)"
  shows "hyp_params' = dict_set ''eval_metric'' (VStr ''error@0.5'') hyp_params
       \<and> dict_get hyp_params' ''eval_metric'' = Inr (VStr ''error@0.5'')
       \<and> (\<forall>k. k \<noteq> ''eval_metric'' \<longrightarrow> dict_get hyp_params' k = dict_get hyp_params k)
       \<and> (''eval_metric'' \<notin> set (keys hyp_params) \<longrightarrow>
            hyp_params' = hyp_params @ [(''eval_metric'', VStr ''error@0.5'')])
       \<and> (''eval_metric'' \<in> set (keys hyp_params) \<longrightarrow> keys hyp_params' = keys hyp_params)"
proof -
  have s: "hyp_params' = dict_set ''eval_metric'' (VStr ''error@0.5'') hyp_params"
    using assms by (rule train_hyp_config_state)
  show ?thesis
    unfolding s
    by (simp add: dict_get_dict_set_other dict_set_fresh keys_dict_set_present)
       (simp add: dict_get_def map_of_dict_set)
qed

lemma example_evalDict:
  "evalDict_of example_extern example_booster =
     Inr [(''auc'', VFloat (9/10)), (''error@0.5'', VStr ''eval-error@0.5:0.2''),
          (''best_iteration'', VInt 3)]"
  by (simp add: evalDict_of_def example_extern_def example_booster_def attr_def
      second_last_def dict_literal_def)

lemma example_train:
  "train_hyp_config example_extern example_args dm (hp_default_config False) 512 =
     Inr ((example_booster,
           [(''auc'', VFloat (9/10)), (''error@0.5'', VStr ''eval-error@0.5:0.2''),
            (''best_iteration'', VInt 3)]),
          hp_default_config False @ [(''eval_metric'', VStr ''error@0.5'')],
          [Wrote ''models/kstar/cont512.model'' (ModelFile example_booster)])"
proof -
  have x: "xgb_train example_extern p dt ev m e v = Some example_booster" for p dt ev m e v
    by (simp add: example_extern_def)
  have s: "str_int 512 = ''512''"
    by code_simp
  show ?thesis
    by (simp add: train_hyp_config_def Let_def x example_evalDict s os_path_join_def
        example_args_def hp_default_config_eq)
qed

text \<open>
  The claim as stated, that the mapping is the same after the call, fails on the
  shallow default preset: the mapping comes back one key longer.
\<close>

theorem train_hyp_config_mutates_counterexample:
  "(case train_hyp_config example_extern example_args
           (\<lparr>data = [], label = [], feature_names = []\<rparr>,
            \<lparr>data = [], label = [], feature_names = []\<rparr>)
           (hp_default_config False) 512 of
      Inl e \<Rightarrow> False
    | Inr (r, hyp_params', evs) \<Rightarrow>
        hyp_params' \<noteq> hp_default_config False
        \<and> keys hyp_params' = keys (hp_default_config False) @ [''eval_metric''])"
  by (simp add: example_train keys_def)

theorem train_hyp_config_sets_eval_metric_witness:
  "train_hyp_config example_extern example_args
      (\<lparr>data = [], label = [], feature_names = []\<rparr>,
       \<lparr>data = [], label = [], feature_names = []\<rparr>)
      (hp_default_config False) 512
     = Inr ((example_booster,
           [(''auc'', VFloat (9/10)), (''error@0.5'', VStr ''eval-error@0.5:0.2''),
            (''best_iteration'', VInt 3)]),
          hp_default_config False @ [(''eval_metric'', VStr ''error@0.5'')],
          [Wrote ''models/kstar/cont512.model'' (ModelFile example_booster)])
   \<and> ''eval_metric'' \<notin> set (keys (hp_default_config False))
   \<and> dict_get (hp_default_config False @ [(''eval_metric'', VStr ''error@0.5'')]) ''eval_metric''
       = Inr (VStr ''error@0.5'')
   \<and> dict_get (hp_default_config False @ [(''eval_metric'', VStr ''error@0.5'')]) ''eta''
       = dict_get (hp_default_config False) ''eta''"
proof -
  let ?dm = "(\<lparr>data = [], label = [], feature_names = []\<rparr>,
              \<lparr>data = [], label = [], feature_names = []\<rparr>)"
  note t = train_hyp_config_sets_eval_metric [OF example_train [of ?dm]]
  have fresh: "''eval_metric'' \<notin> set (keys (hp_default_config False))"
    by (simp add: hp_default_config_eq keys_def)
  have m: "dict_get (hp_default_config False @ [(''eval_metric'', VStr ''error@0.5'')])
                    ''eval_metric'' = Inr (VStr ''error@0.5'')"
    by (rule t [THEN conjunct2, THEN conjunct1])
  have ne: "''eta'' \<noteq> ''eval_metric''" by simp
  have e: "dict_get (hp_default_config False @ [(''eval_metric'', VStr ''error@0.5'')])
                    ''eta'' = dict_get (hp_default_config False) ''eta''"
    by (rule t [THEN conjunct2, THEN conjunct2, THEN conjunct1, rule_format, OF ne])
  show ?thesis
    by (intro conjI) (rule example_train fresh m e)+
qed


lemma split_on_nonempty [simp]: "split_on c s \<noteq> []"
  by (induction s) (auto split: list.splits)

lemma split_on_join: "concat (map ((#) c) (split_on c s)) = c # s"
proof (induction s)
  case Nil
  then show ?case by simp
next
  case (Cons x xs)
  then show ?case by (cases "split_on c xs") auto
qed

lemma split_on_fields: "f \<in> set (split_on c s) \<Longrightarrow> c \<notin> set f"
proof (induction s arbitrary: f)
  case Nil
  then show ?case by simp
next
  case (Cons x xs)
  then show ?case by (cases "split_on c xs") (auto split: if_splits)
qed

lemma evalDict_of_Inr:
  assumes "evalDict_of ex bst = Inr ed"
  shows "\<exists>auc err best msg.
           ed = [(''auc'', VFloat auc), (''error@0.5'', VStr err), (''best_iteration'', VInt best)]
         \<and> attr bst ''best_msg'' = Some msg
         \<and> second_last (split_on (CHR 0x09) msg) = Inr err"
  using assms
  by (auto simp: evalDict_of_def dict_literal_def split: option.splits sum.splits)

text \<open>
  Claim C8. The evaluation record of a call of \<open>train_hyp_config\<close> that returns has
  exactly the keys \<^verbatim>\<open>auc\<close>, \<^verbatim>\<open>error@0.5\<close> and \<^verbatim>\<open>best_iteration\<close>, in this order, holding a
  float, a string and an integer; the string is the last but one of the fields of the
  booster's \<^verbatim>\<open>best_msg\<close>, the fields being the tab-free pieces that, joined by tabs, give
  the message back.
\<close>

theorem evalDict_shape:
  assumes "train_hyp_config ex a dm hyp_params n = Inr ((bst, evalDict), hyp_params', evs)"
  shows "\<exists>auc err best msg fields.
           evalDict = [(''auc'', VFloat auc), (''error@0.5'', VStr err),
                       (''best_iteration'', VInt best)]
         \<and> keys evalDict = [''auc'', ''error@0.5'', ''best_iteration'']
         \<and> attr bst ''best_msg'' = Some msg
         \<and> fields = split_on (CHR 0x09) msg
         \<and> concat (map ((#) (CHR 0x09)) fields) = CHR 0x09 # msg
         \<and> (\<forall>f \<in> set fields. CHR 0x09 \<notin> set f)
         \<and> 2 \<le> length fields
         \<and> err = fields ! (length fields - 2)"
proof -
  have "evalDict_of ex bst = Inr evalDict"
    using assms by (auto simp: train_hyp_config_def Let_def split: option.splits sum.splits)
  from evalDict_of_Inr [OF this] obtain auc err best msg where
    ed: "evalDict = [(''auc'', VFloat auc), (''error@0.5'', VStr err), (''best_iteration'', VInt best)]"
    and msg: "attr bst ''best_msg'' = Some msg"
    and sl: "second_last (split_on (CHR 0x09) msg) = Inr err"
    by blast
  have len: "2 \<le> length (split_on (CHR 0x09) msg)"
    and err: "err = split_on (CHR 0x09) msg ! (length (split_on (CHR 0x09) msg) - 2)"
    using sl by (auto simp: second_last_def split: if_splits)
  have k: "keys evalDict = [''auc'', ''error@0.5'', ''best_iteration'']"
    by (simp add: ed keys_def)
  show ?thesis
    using ed k msg len err split_on_join [of "CHR 0x09" msg] split_on_fields [of _ "CHR 0x09" msg]
    by blast
qed

theorem evalDict_shape_witness:
  "train_hyp_config example_extern example_args
      (\<lparr>data = [], label = [], feature_names = []\<rparr>,
       \<lparr>data = [], label = [], feature_names = []\<rparr>)
      (hp_default_config False) 512
     = Inr ((example_booster,
           [(''auc'', VFloat (9/10)), (''error@0.5'', VStr ''eval-error@0.5:0.2''),
            (''best_iteration'', VInt 3)]),
          hp_default_config False @ [(''eval_metric'', VStr ''error@0.5'')],
          [Wrote ''models/kstar/cont512.model'' (ModelFile example_booster)])
   \<and> split_on (CHR 0x09) (the (attr example_booster ''best_msg''))
       = [''[3]'', ''train-error@0.5:0.1'', ''train-auc:0.95'', ''eval-error@0.5:0.2'',
          ''eval-auc:0.9'']
   \<and> (\<exists>auc err best.
         [(''auc'', VFloat (9/10)), (''error@0.5'', VStr ''eval-error@0.5:0.2''),
            (''best_iteration'', VInt 3)]
           = [(''auc'', VFloat auc), (''error@0.5'', VStr err), (''best_iteration'', VInt best)])"
proof -
  let ?dm = "(\<lparr>data = [], label = [], feature_names = []\<rparr>,
              \<lparr>data = [], label = [], feature_names = []\<rparr>)"
  have sp: "split_on (CHR 0x09) (the (attr example_booster ''best_msg''))
       = [''[3]'', ''train-error@0.5:0.1'', ''train-auc:0.95'', ''eval-error@0.5:0.2'',
          ''eval-auc:0.9'']"
    by (simp add: example_booster_def attr_def)
  from evalDict_shape [OF example_train [of ?dm]]
  have ex: "\<exists>auc err best.
         [(''auc'', VFloat (9/10)), (''error@0.5'', VStr ''eval-error@0.5:0.2''),
            (''best_iteration'', VInt 3)]
           = [(''auc'', VFloat auc), (''error@0.5'', VStr err), (''best_iteration'', VInt best)]"
    by metis
  show ?thesis
    by (intro conjI) (rule example_train sp ex)+
qed

lemma train_hyp_config_rounds_flag:
  "train_hyp_config ex (a\<lparr>args_num_boost_rounds := x\<rparr>) = train_hyp_config ex a"
  by (intro ext) (simp add: train_hyp_config_def Let_def split: option.splits sum.splits)

lemma save_results_rounds_flag:
  "save_results ex (a\<lparr>args_num_boost_rounds := x\<rparr>) = save_results ex a"
  by (intro ext) (simp add: save_results_def)

lemma diagnostics_rounds_flag:
  "diagnostics ex (a\<lparr>args_num_boost_rounds := x\<rparr>) = diagnostics ex a"
  by (intro ext)
     (simp add: diagnostics_def plot_ROC_curve_def plot_importances_def Let_def
        split: option.splits sum.splits)

text \<open>
  Claim C6 at the flag value 0. The example command line gives \<^verbatim>\<open>-n 0\<close>; the number of
  rounds handed to the trainer is 512, not 0, and on every command line the script
  behaves with \<^verbatim>\<open>-n 0\<close> as it does without the flag.
\<close>

theorem zero_rounds_flag_falls_back_to_default:
  "args_num_boost_rounds example_args = Some 0
   \<and> num_boost_rounds example_args = 512
   \<and> main ex d (a\<lparr>args_num_boost_rounds := Some 0\<rparr>) = main ex d (a\<lparr>args_num_boost_rounds := None\<rparr>)"
proof -
  have r: "num_boost_rounds (a\<lparr>args_num_boost_rounds := Some 0\<rparr>)
             = num_boost_rounds (a\<lparr>args_num_boost_rounds := None\<rparr>)"
    by (simp add: num_boost_rounds_def)
  have m: "main ex d (a\<lparr>args_num_boost_rounds := Some 0\<rparr>)
             = main ex d (a\<lparr>args_num_boost_rounds := None\<rparr>)"
    unfolding main_def train_hyp_config_rounds_flag save_results_rounds_flag
      diagnostics_rounds_flag r
    by (simp add: Let_def split: option.splits sum.splits prod.splits)
  show ?thesis
    using m by (simp add: example_args_def num_boost_rounds_def)
qed

lemma num_boost_rounds_given:
  "n \<noteq> 0 \<Longrightarrow> num_boost_rounds (a\<lparr>args_num_boost_rounds := Some n\<rparr>) = n"
  by (simp add: num_boost_rounds_def)

lemma num_boost_rounds_absent:
  "num_boost_rounds (a\<lparr>args_num_boost_rounds := None\<rparr>) = 512"
  by (simp add: num_boost_rounds_def)


section \<open>The data loader\<close>



lemma positions_last:
  assumes "cols \<noteq> []" "last cols = x" "x \<notin> set (butlast cols)"
  shows "positions x cols = [length cols - 1]"
proof -
  obtain bl where c: "cols = bl @ [x]"
    using assms(1,2) by (metis append_butlast_last_id)
  have nx: "x \<notin> set bl" using assms(3) by (simp add: c)
  have "filter (\<lambda>i. (bl @ [x]) ! i = x) [0..<length bl] = []"
    using nx by (auto simp: filter_empty_conv nth_append)
  then show ?thesis
    by (simp add: positions_def c)
qed

lemma df_getitem_labels_last:
  assumes "columns df \<noteq> []" "last (columns df) = ''labels''"
    "''labels'' \<notin> set (butlast (columns df))"
    "\<forall>r \<in> set (rows df). length r = length (columns df)"
  shows "df_getitem ''labels'' df = Inr (map last (rows df))"
proof -
  have "map (\<lambda>r. r ! (length (columns df) - 1)) (rows df) = map last (rows df)"
  proof (rule map_cong [OF refl])
    fix r assume "r \<in> set (rows df)"
    then have l: "length r = length (columns df)" using assms(4) by blast
    then have "r \<noteq> []" using assms(1) by auto
    then show "r ! (length (columns df) - 1) = last r"
      by (simp add: last_conv_nth l)
  qed
  then show ?thesis
    by (simp add: df_getitem_def positions_last [OF assms(1,2,3)])
qed

lemma load_data_Inr:
  assumes "read_hdf ex fname = Some df"
    and "load_data ex fname mode channel test_size = Inr (((dTrain, dTest), df_y_test), evs)"
  shows "\<exists>tr te y.
           train_test_split ex 24601 test_size (length (rows df)) = Some (tr, te)
         \<and> df_getitem ''labels'' df = Inr y
         \<and> dTrain = \<lparr>data = iloc tr (rows (df_getitem_list (butlast (columns df)) df)),
                      label = iloc tr y, feature_names = butlast (columns df)\<rparr>
         \<and> dTest = \<lparr>data = iloc te (rows (df_getitem_list (butlast (columns df)) df)),
                     label = iloc te y, feature_names = butlast (columns df)\<rparr>
         \<and> df_y_test = iloc te y"
  using assms
  by (auto simp: load_data_def Let_def split: sum.splits option.splits)

text \<open>
  Claim C3, as amended. For a loaded table whose rightmost header is \<^verbatim>\<open>labels\<close>, borne by
  no other column, and whose rows hold one cell per header, the labels that are split
  and attached to the two matrices are the rightmost column, and the feature names of
  both matrices are the headers but the last, in order.
\<close>

theorem load_data_labels_and_feature_names:
  assumes "read_hdf ex fname = Some df"
    and "load_data ex fname mode channel test_size = Inr (((dTrain, dTest), df_y_test), evs)"
    and "columns df \<noteq> []" and "last (columns df) = ''labels''"
    and "''labels'' \<notin> set (butlast (columns df))"
    and "\<forall>r \<in> set (rows df). length r = length (columns df)"
  shows "\<exists>tr te.
           train_test_split ex 24601 test_size (length (rows df)) = Some (tr, te)
         \<and> label dTrain = iloc tr (map last (rows df))
         \<and> label dTest = iloc te (map last (rows df))
         \<and> feature_names dTrain = butlast (columns df)
         \<and> feature_names dTest = butlast (columns df)"
proof -
  from load_data_Inr [OF assms(1,2)] obtain tr te y where
    s: "train_test_split ex 24601 test_size (length (rows df)) = Some (tr, te)"
    and y: "df_getitem ''labels'' df = Inr y"
    and tr: "dTrain = \<lparr>data = iloc tr (rows (df_getitem_list (butlast (columns df)) df)),
                      label = iloc tr y, feature_names = butlast (columns df)\<rparr>"
    and te: "dTest = \<lparr>data = iloc te (rows (df_getitem_list (butlast (columns df)) df)),
                     label = iloc te y, feature_names = butlast (columns df)\<rparr>"
    by blast
  have "y = map last (rows df)"
    using y df_getitem_labels_last [OF assms(3,4,5,6)] by simp
  then show ?thesis using s tr te by simp
qed

lemma load_data_feature_names:
  assumes "read_hdf ex fname = Some df"
    and "load_data ex fname mode channel test_size = Inr (((dTrain, dTest), df_y_test), evs)"
  shows "feature_names dTrain = butlast (columns df) \<and> feature_names dTest = butlast (columns df)"
  using load_data_Inr [OF assms] by auto

lemma example_split: "train_test_split example_extern 24601 ts n = Some (rev [1..<n], [0])"
  by (simp add: example_extern_def)

lemma example_read_t: "read_hdf example_extern ''t.h5'' = Some example_table"
  by (simp add: example_extern_def)

lemma example_read_u: "read_hdf example_extern ''u.h5'' = Some labels_first_table"
  by (simp add: example_extern_def)

lemma upt_1_3: "[1..<3] = [1, 2]"
  by (simp add: upt_rec)

lemma upt_0_3: "[0..<3] = [0, 1, 2]"
  by (simp add: upt_rec)

lemma upt_0_2: "[0..<2] = [0, 1]"
  by (simp add: upt_rec)

lemma upt_0_1: "[0..<1] = [0]"
  by (simp add: upt_rec)

lemma example_load:
  "load_data example_extern ''t.h5'' ''cont'' ''kstar'' (5/100) =
     Inr (((\<lparr>data = [[3, 4], [0, 7]], label = [1, 1], feature_names = [''a'', ''b'']\<rparr>,
            \<lparr>data = [[1, 5]], label = [0], feature_names = [''a'', ''b'']\<rparr>), [0]),
          [Wrote ''dmatrices/kstar/dTraincontkstar.buffer''
             (DMatrixBuffer \<lparr>data = [[3, 4], [0, 7]], label = [1, 1],
                               feature_names = [''a'', ''b'']\<rparr>),
           Wrote ''dmatrices/kstar/dTestcontkstar.buffer''
             (DMatrixBuffer \<lparr>data = [[1, 5]], label = [0], feature_names = [''a'', ''b'']\<rparr>),
           Wrote ''test/kstar/dTestcontkstar.h5''
             (TestTable \<lparr>columns = [''a'', ''b'', ''labels''], rows = [[1, 5, 0]]\<rparr>)])"
  by (simp add: load_data_def example_read_t example_split example_table_def
      df_getitem_list_def df_getitem_def positions_def iloc_def df_assign_def Let_def
      os_path_join_def upt_1_3 upt_0_3 upt_0_2)

lemma labels_first_load:
  "load_data example_extern ''u.h5'' ''cont'' ''kstar'' (1/2) =
     Inr (((\<lparr>data = [[0]], label = [0], feature_names = [''labels'']\<rparr>,
            \<lparr>data = [[1]], label = [1], feature_names = [''labels'']\<rparr>), [1]),
          [Wrote ''dmatrices/kstar/dTraincontkstar.buffer''
             (DMatrixBuffer \<lparr>data = [[0]], label = [0], feature_names = [''labels'']\<rparr>),
           Wrote ''dmatrices/kstar/dTestcontkstar.buffer''
             (DMatrixBuffer \<lparr>data = [[1]], label = [1], feature_names = [''labels'']\<rparr>),
           Wrote ''test/kstar/dTestcontkstar.h5''
             (TestTable \<lparr>columns = [''labels''], rows = [[1]]\<rparr>)])"
  by (simp add: load_data_def example_read_u example_split labels_first_table_def
      df_getitem_list_def df_getitem_def positions_def iloc_def df_assign_def Let_def
      os_path_join_def upt_rec)


theorem load_data_labels_and_feature_names_witness:
  "load_data example_extern ''t.h5'' ''cont'' ''kstar'' (5/100) =
     Inr (((\<lparr>data = [[3, 4], [0, 7]], label = [1, 1], feature_names = [''a'', ''b'']\<rparr>,
            \<lparr>data = [[1, 5]], label = [0], feature_names = [''a'', ''b'']\<rparr>), [0]),
          [Wrote ''dmatrices/kstar/dTraincontkstar.buffer''
             (DMatrixBuffer \<lparr>data = [[3, 4], [0, 7]], label = [1, 1],
                               feature_names = [''a'', ''b'']\<rparr>),
           Wrote ''dmatrices/kstar/dTestcontkstar.buffer''
             (DMatrixBuffer \<lparr>data = [[1, 5]], label = [0], feature_names = [''a'', ''b'']\<rparr>),
           Wrote ''test/kstar/dTestcontkstar.h5''
             (TestTable \<lparr>columns = [''a'', ''b'', ''labels''], rows = [[1, 5, 0]]\<rparr>)])
   \<and> last (columns example_table) = ''labels''
   \<and> list_all (\<lambda>r. length r = length (columns example_table)) (rows example_table)
   \<and> map last (rows example_table) = [0, 1, 1]
   \<and> (\<exists>tr te. train_test_split example_extern 24601 (5/100) 3 = Some (tr, te)
         \<and> [1, 1] = iloc tr (map last (rows example_table))
         \<and> [0] = iloc te (map last (rows example_table)))"
proof -
  have c: "columns example_table \<noteq> []" by (simp add: example_table_def)
  have l: "last (columns example_table) = ''labels''" by (simp add: example_table_def)
  have n: "''labels'' \<notin> set (butlast (columns example_table))"
    by (simp add: example_table_def)
  have w: "\<forall>r \<in> set (rows example_table). length r = length (columns example_table)"
    by (simp add: example_table_def)
  have len: "length (rows example_table) = 3" by (simp add: example_table_def)
  have m: "map last (rows example_table) = [0, 1, 1]" by (simp add: example_table_def)
  from load_data_labels_and_feature_names [OF example_read_t example_load c l n w]
  obtain tr te where "train_test_split example_extern 24601 (5/100) 3 = Some (tr, te)"
    and "[1, 1] = iloc tr (map last (rows example_table))"
    and "[0] = iloc te (map last (rows example_table))"
    by (auto simp: len)
  then have e: "\<exists>tr te. train_test_split example_extern 24601 (5/100) 3 = Some (tr, te)
         \<and> [1, 1] = iloc tr (map last (rows example_table))
         \<and> [0] = iloc te (map last (rows example_table))"
    by (intro exI conjI)
  have w': "list_all (\<lambda>r. length r = length (columns example_table)) (rows example_table)"
    using w by (simp add: list_all_iff)
  show ?thesis
    by (intro conjI) (rule example_load l w' m e)+
qed

text \<open>
  The claim as stated, for every loaded table, fails on a table that has the
  \<^verbatim>\<open>labels\<close> column first: the labels of the matrices are that column (0 and 1), not the
  rightmost one (7 and 5).
\<close>

theorem load_data_labels_by_name_counterexample:
  "load_data example_extern ''u.h5'' ''cont'' ''kstar'' (1/2) =
     Inr (((\<lparr>data = [[0]], label = [0], feature_names = [''labels'']\<rparr>,
            \<lparr>data = [[1]], label = [1], feature_names = [''labels'']\<rparr>), [1]),
          [Wrote ''dmatrices/kstar/dTraincontkstar.buffer''
             (DMatrixBuffer \<lparr>data = [[0]], label = [0], feature_names = [''labels'']\<rparr>),
           Wrote ''dmatrices/kstar/dTestcontkstar.buffer''
             (DMatrixBuffer \<lparr>data = [[1]], label = [1], feature_names = [''labels'']\<rparr>),
           Wrote ''test/kstar/dTestcontkstar.h5''
             (TestTable \<lparr>columns = [''labels''], rows = [[1]]\<rparr>)])
   \<and> read_hdf example_extern ''u.h5''
       = Some \<lparr>columns = [''labels'', ''x''], rows = [[1, 5], [0, 7]]\<rparr>
   \<and> train_test_split example_extern 24601 (1/2) 2 = Some ([1], [0])
   \<and> iloc [1] (map last [[1, 5], [0, 7 :: real]]) = [7]
   \<and> iloc [0] (map last [[1, 5], [0, 7 :: real]]) = [5]
   \<and> [0] \<noteq> [7 :: real] \<and> [1] \<noteq> [5 :: real]"
proof -
  have r: "read_hdf example_extern ''u.h5''
       = Some \<lparr>columns = [''labels'', ''x''], rows = [[1, 5], [0, 7]]\<rparr>"
    by (simp add: example_read_u labels_first_table_def)
  have s: "train_test_split example_extern 24601 (1/2) 2 = Some ([1], [0])"
    by (simp add: example_split upt_rec)
  have i: "iloc [1] (map last [[1, 5], [0, 7 :: real]]) = [7]"
     "iloc [0] (map last [[1, 5], [0, 7 :: real]]) = [5]"
    by (simp_all add: iloc_def)
  have d: "[0] \<noteq> [7 :: real]" "[1] \<noteq> [5 :: real]" by simp_all
  show ?thesis
    by (intro conjI) (rule labels_first_load r s i d)+
qed









section \<open>The diagnostics\<close>




















end
